theory Spec2Isabelle
  imports Main "HOL-Library.Sublist"
begin

section \<open>Strings, as Go has them\<close>

text \<open>
  A Go string is a sequence of bytes; \<^typ>\<open>string\<close> is a list of 8-bit characters, so
  \<open>length\<close> is Go's \<open>len\<close>. The functions of the standard library that the program calls
  are modelled for a Unix build (path separator \<open>/\<close>, no volume names).
\<close>

definition byte_in :: "nat \<Rightarrow> nat \<Rightarrow> char \<Rightarrow> bool" where
  "byte_in lo hi c = (lo \<le> of_char c \<and> (of_char c :: nat) \<le> hi)"

definition is_lower :: "char \<Rightarrow> bool" where
  "is_lower c = byte_in 97 122 c"

definition is_upper :: "char \<Rightarrow> bool" where
  "is_upper c = byte_in 65 90 c"

definition is_digit :: "char \<Rightarrow> bool" where
  "is_digit c = byte_in 48 57 c"

text \<open>\<open>strings.HasSuffix(s, suffix)\<close>.\<close>

definition HasSuffix :: "string \<Rightarrow> string \<Rightarrow> bool" where
  "HasSuffix s suf = (length suf \<le> length s \<and> drop (length s - length suf) s = suf)"

text \<open>
  \<open>strings.ToLower\<close> on a string of ASCII bytes: each of \<open>A\<close>..\<open>Z\<close> moves to its lower-case
  letter, every other byte stays. The program calls it only on the output of the regular
  expression replacement, which is ASCII (lemma \<open>replaceUnsafe_ascii\<close> below).
\<close>

definition lower_byte :: "char \<Rightarrow> char" where
  "lower_byte c =
     (case map_of (zip ''ABCDEFGHIJKLMNOPQRSTUVWXYZ'' ''abcdefghijklmnopqrstuvwxyz'') c of
        Some l \<Rightarrow> l
      | None \<Rightarrow> c)"

definition ToLower :: "string \<Rightarrow> string" where
  "ToLower s = map lower_byte s"

text \<open>
  \<open>utf8.DecodeRuneInString\<close>, the width only: how many bytes the first rune of \<open>s\<close> takes.
  An ASCII byte is one rune; a well-formed multi-byte sequence is one rune of 2 to 4 bytes;
  any other byte is one (invalid) rune of width 1. The regular expression engine walks a
  string rune by rune with this function.
\<close>

definition rune_width :: "string \<Rightarrow> nat" where
  "rune_width s =
     (case s of
        [] \<Rightarrow> 0
      | c # _ \<Rightarrow>
          (let b0 = (of_char c :: nat) in
           if b0 < 194 \<or> 244 < b0 then 1
           else
             (let sz = (if b0 < 224 then 2 else if b0 < 240 then 3 else (4::nat));
                  lo = (if b0 = 224 then 160 else if b0 = 240 then 144 else (128::nat));
                  hi = (if b0 = 237 then 159 else if b0 = 244 then 143 else (191::nat))
              in
                if length s < sz then 1
                else if \<not> byte_in lo hi (s ! 1) then 1
                else if sz \<le> 2 then 2
                else if \<not> byte_in 128 191 (s ! 2) then 1
                else if sz \<le> 3 then 3
                else if \<not> byte_in 128 191 (s ! 3) then 1
                else 4)))"

section \<open>Constants\<close>

definition maxShowIDLength :: nat where
  "maxShowIDLength = 50"

definition maxResponseSize :: nat where
  "maxResponseSize = 10 * 1024 * 1024"

definition maxFileSize :: nat where
  "maxFileSize = 500 * 1024 * 1024"

definition maxArchiveLinks :: nat where
  "maxArchiveLinks = 1000"

definition baseURL :: string where
  "baseURL = ''https://wmse.org''"

definition apiURL :: string where
  "apiURL = ''https://wmse.fly.dev''"

section \<open>sanitizeFilename\<close>

definition isPathSeparator :: "char \<Rightarrow> bool" where
  "isPathSeparator c = (c = CHR ''/'')"

text \<open>
  \<open>filepath.Base\<close>: the empty path gives \<open>.\<close>; trailing separators are stripped; what
  follows the last separator is kept; a path of separators only gives \<open>/\<close>.
\<close>

definition Base :: "string \<Rightarrow> string" where
  "Base path =
     (if path = [] then ''.''
      else
        (let stripped = rev (dropWhile isPathSeparator (rev path));
             elem = rev (takeWhile (\<lambda>c. \<not> isPathSeparator c) (rev stripped))
         in if elem = [] then ''/'' else elem))"

text \<open>The characters that the expression \<open>[^a-zA-Z0-9.-]\<close> leaves alone.\<close>

definition keeps :: "char \<Rightarrow> bool" where
  "keeps c = (is_lower c \<or> is_upper c \<or> is_digit c \<or> c = CHR ''.'' \<or> c = CHR ''-'')"

text \<open>
  \<open>reg.ReplaceAllString(filename, "_")\<close> for \<open>reg = [^a-zA-Z0-9.-]\<close>: every rune outside
  the class, whatever its width in bytes, becomes one underscore.
\<close>

function replaceUnsafe :: "string \<Rightarrow> string" where
  "replaceUnsafe [] = []"
| "replaceUnsafe (c # cs) =
     (if keeps c then c # replaceUnsafe cs
      else CHR ''_'' # replaceUnsafe (drop (rune_width (c # cs) - 1) cs))"
  by pat_completeness auto
termination
  by (relation "measure length") auto

definition sanitizeFilename :: "string \<Rightarrow> string" where
  "sanitizeFilename filename =
     (let filename1 = Base filename;
          filename2 = replaceUnsafe filename1
      in if \<not> HasSuffix (ToLower filename2) ''.mp3'' then filename2 @ ''.mp3''
         else filename2)"

text \<open>
  The characters of a sanitized name: those that the expression leaves alone, and the
  underscore that replaces the others. They are the class \<open>[A-Za-z0-9._-]\<close>, listed in
  \<open>filename_alphabet\<close>.
\<close>

definition safe_char :: "char \<Rightarrow> bool" where
  "safe_char c = (keeps c \<or> c = CHR ''_'')"

definition filename_alphabet :: string where
  "filename_alphabet =
     ''ABCDEFGHIJKLMNOPQRSTUVWXYZabcdefghijklmnopqrstuvwxyz0123456789._-''"

section \<open>Errors\<close>

text \<open>
  Go's \<open>error\<close> values, one constructor for each place that makes one. A constructor's
  strings are what the message is formatted from (an underlying library error is kept as
  its text, a status line as its code). \<open>ErrInvalidShowID msg\<close> is the sentinel
  \<open>ErrInvalidShowID\<close> wrapped with \<open>msg\<close>. A returned \<open>error\<close> is an \<open>error option\<close>
  (\<open>None\<close> is \<open>nil\<close>); a returned pair of a value and an error is a sum.
\<close>

datatype error =
    ErrInvalidShowID string
  | ErrResponseTooLarge
  | ErrFileTooLarge
  | ErrInvalidContentType
  | ErrTooManyLinks
  | CreateRequestFailed string
  | FetchProgramPageFailed string
  | ProgramPageBadStatus nat
  | ParseHtmlFailed string
  | ArchiveIDNotFound
  | FetchArchivesFailed string
  | APIBadStatus nat
  | ParseJsonFailed string
  | NoMP3URL string
  | MkdirFailed string
  | CreateTempFailed string string
  | GetFailed string string
  | BadStatusDownloading string nat
  | WriteFailed string string
  | SyncFailed string
  | CloseFailed string
  | RenameFailed string

section \<open>validateShowID\<close>

text \<open>
  \<open>regexp.MatchString(validShowIDRegex, id)\<close> for \<open>validShowIDRegex = ^[a-zA-Z0-9_-]+$\<close>: the
  whole text (in Go \<open>$\<close> without the \<open>m\<close> flag is the end of the text, never the place
  before a last newline) is one or more characters of the class. The class is ASCII, so a
  rune of it is one byte, and a byte of 128 or more is in no rune of it.
\<close>

definition validShowIDRegex_class :: "char \<Rightarrow> bool" where
  "validShowIDRegex_class c =
     (is_lower c \<or> is_upper c \<or> is_digit c \<or> c = CHR ''_'' \<or> c = CHR ''-'')"

definition MatchString_validShowIDRegex :: "string \<Rightarrow> bool" where
  "MatchString_validShowIDRegex s = (s \<noteq> [] \<and> list_all validShowIDRegex_class s)"

definition validateShowID :: "string \<Rightarrow> error option" where
  "validateShowID id' =
     (if id' = [] \<or> length id' > maxShowIDLength
      then Some (ErrInvalidShowID ''empty or too long'')
      else if \<not> MatchString_validShowIDRegex id'
      then Some (ErrInvalidShowID ''contains invalid characters'')
      else None)"

text \<open>
  The specification's shape of a show key, \<open>^[A-Za-z0-9_-]{1,50}$\<close>, written from its words:
  between 1 and 50 characters, each one of the 64 characters listed.
\<close>

definition spec_key_alphabet :: string where
  "spec_key_alphabet =
     ''ABCDEFGHIJKLMNOPQRSTUVWXYZabcdefghijklmnopqrstuvwxyz0123456789_-''"

definition spec_show_key :: "string \<Rightarrow> bool" where
  "spec_show_key s =
     (1 \<le> length s \<and> length s \<le> 50 \<and> list_all (\<lambda>c. c \<in> set spec_key_alphabet) s)"

section \<open>The parsed document\<close>

text \<open>The node of \<open>golang.org/x/net/html\<close>, its children as a list in sibling order.\<close>

datatype NodeType =
  ErrorNode | TextNode | DocumentNode | ElementNode | CommentNode | DoctypeNode | RawNode

datatype Attribute = Attribute (Namespace: string) (Key: string) (Val: string)

datatype Node = Node (Type: NodeType) (Data: string) (Attr: "Attribute list")
  (Children: "Node list")

text \<open>
  The closure \<open>f\<close> of \<open>getShowArchiveID\<close>. It writes the variable \<open>archiveID\<close> that it
  captures, so the model takes the variable's value and returns the new one. At a
  \<open>wmse-archive\<close> element the first \<open>show-id\<close> attribute is stored and this call of \<open>f\<close>
  returns; the callers' loops over the siblings go on.
\<close>

fun getShowArchiveID_f :: "Node \<Rightarrow> string \<Rightarrow> string" where
  "getShowArchiveID_f (Node t d attrs cs) archiveID =
     (if t = ElementNode \<and> d = ''wmse-archive''
      then
        (case find (\<lambda>a. Key a = ''show-id'') attrs of
           Some a \<Rightarrow> Val a
         | None \<Rightarrow> fold getShowArchiveID_f cs archiveID)
      else fold getShowArchiveID_f cs archiveID)"

text \<open>
  The specification's search, written from its words: depth first, in document order, the
  \<open>show-id\<close> of the first \<open>wmse-archive\<close> element that carries one; nothing after the
  first match is looked at.
\<close>

fun first_Some :: "'a option list \<Rightarrow> 'a option" where
  "first_Some [] = None"
| "first_Some (Some x # _) = Some x"
| "first_Some (None # xs) = first_Some xs"

fun spec_first_match :: "Node \<Rightarrow> string option" where
  "spec_first_match (Node t d attrs cs) =
     (case (if t = ElementNode \<and> d = ''wmse-archive''
            then find (\<lambda>a. Key a = ''show-id'') attrs else None) of
        Some a \<Rightarrow> Some (Val a)
      | None \<Rightarrow> first_Some (map spec_first_match cs))"

section \<open>The world outside the program\<close>

text \<open>
  \<open>Archive\<close> is the program's struct. The network, the file system and the clock are a
  state that each function takes and returns:
  \<^item> \<open>files\<close>: the paths that exist (\<open>os.Stat\<close> succeeds on exactly these) with their
    contents; directories are not tracked;
  \<^item> \<open>responses\<close>: what the network answers to the coming requests, in order (with none
    left, a request fails in transport);
  \<^item> \<open>requests\<close>: the URLs of the requests sent so far;
  \<^item> \<open>sleeps\<close>: the durations of the calls of \<open>time.Sleep\<close> so far, in nanoseconds;
  \<^item> \<open>errors_logged\<close>: the records that \<open>main\<close> logged at level Error (the other
    log records are left out).
  A request that a time-out or the deadline of \<open>main\<close>'s context cuts off is a request
  that fails in transport.

  What the libraries and the operating system decide is in \<open>env\<close>: whether
  \<open>http.NewRequest\<close> accepts a URL, what \<open>html.Parse\<close> and the JSON decoder make of a
  body, and which file operations fail (\<open>None\<close>: the operation succeeds).
\<close>

record Archive =
  ShowID :: string
  ArchiveURL :: string
  PlaylistID :: "string option"
  PlaylistDate :: string

text \<open>
  \<open>Response code body err\<close>: a response with this status code whose body delivers the
  bytes \<open>body\<close> and then ends (\<open>err = None\<close>) or fails with \<open>err\<close>.
\<close>

datatype http_result = TransportError string | Response nat string "string option"

record env =
  NewRequest_error :: "string \<Rightarrow> string option"
  html_Parse :: "string \<Rightarrow> string option \<Rightarrow> string + Node"
  json_Decode :: "string \<Rightarrow> string option \<Rightarrow> string + Archive list"
  MkdirAll_error :: "string \<Rightarrow> string option"
  Create_error :: "string \<Rightarrow> string option"
  Sync_error :: "string \<Rightarrow> string option"
  Close_error :: "string \<Rightarrow> string option"
  Rename_error :: "string \<Rightarrow> string \<Rightarrow> string option"

record world =
  files :: "string \<rightharpoonup> string"
  responses :: "http_result list"
  requests :: "string list"
  sleeps :: "int list"
  errors_logged :: "(string \<times> error option) list"

definition client_Do :: "string \<Rightarrow> world \<Rightarrow> http_result \<times> world" where
  "client_Do url w =
     (case responses w of
        [] \<Rightarrow> (TransportError ''no response'', w\<lparr>requests := requests w @ [url]\<rparr>)
      | r # rs \<Rightarrow> (r, w\<lparr>responses := rs, requests := requests w @ [url]\<rparr>))"

definition Second :: int where
  "Second = 1000000000"

definition Sleep :: "int \<Rightarrow> world \<Rightarrow> world" where
  "Sleep d w = w\<lparr>sleeps := sleeps w @ [d]\<rparr>"

definition logError :: "string \<Rightarrow> error option \<Rightarrow> world \<Rightarrow> world" where
  "logError msg e w = w\<lparr>errors_logged := errors_logged w @ [(msg, e)]\<rparr>"

section \<open>getShowArchiveID and fetchArchives\<close>

definition getShowArchiveID :: "env \<Rightarrow> string \<Rightarrow> world \<Rightarrow> (error + string) \<times> world" where
  "getShowArchiveID env showID w =
     (case validateShowID showID of
        Some e \<Rightarrow> (Inl e, w)
      | None \<Rightarrow>
          (let url = baseURL @ ''/program/'' @ showID @ ''/'' in
           case NewRequest_error env url of
             Some e \<Rightarrow> (Inl (CreateRequestFailed e), w)
           | None \<Rightarrow>
               (case client_Do url w of
                  (TransportError e, w1) \<Rightarrow> (Inl (FetchProgramPageFailed e), w1)
                | (Response code body berr, w1) \<Rightarrow>
                    if code \<noteq> 200 then (Inl (ProgramPageBadStatus code), w1)
                    else
                      (case html_Parse env body berr of
                         Inl e \<Rightarrow> (Inl (ParseHtmlFailed e), w1)
                       | Inr doc \<Rightarrow>
                           (let archiveID = getShowArchiveID_f doc [] in
                            if archiveID = [] then (Inl ArchiveIDNotFound, w1)
                            else (Inr archiveID, w1))))))"

definition fetchArchives ::
  "env \<Rightarrow> string \<Rightarrow> world \<Rightarrow> (error + Archive list) \<times> world" where
  "fetchArchives env archiveID w =
     (let url = apiURL @ ''/api/shows/'' @ archiveID in
      case NewRequest_error env url of
        Some e \<Rightarrow> (Inl (CreateRequestFailed e), w)
      | None \<Rightarrow>
          (case client_Do url w of
             (TransportError e, w1) \<Rightarrow> (Inl (FetchArchivesFailed e), w1)
           | (Response code body berr, w1) \<Rightarrow>
               if code \<noteq> 200 then (Inl (APIBadStatus code), w1)
               else
                 (case json_Decode env body berr of
                    Inl e \<Rightarrow> (Inl (ParseJsonFailed e), w1)
                  | Inr archives \<Rightarrow> (Inr archives, w1))))"

section \<open>downloadShow\<close>

text \<open>
  \<open>filepath.Join(dir, name)\<close>: the elements that are not empty, joined by the separator,
  and the result cleaned by \<open>filepath.Clean\<close>. \<open>Clean\<close> works on the elements between
  separators: empty ones and \<open>.\<close> go away; \<open>..\<close> takes away the element before it when
  there is one to take, stays when the path is relative, and goes away at the root.
\<close>

fun split_path :: "string \<Rightarrow> string list" where
  "split_path [] = [] # []"
| "split_path (c # cs) =
     (if isPathSeparator c then [] # split_path cs
      else (case split_path cs of e # es \<Rightarrow> (c # e) # es | [] \<Rightarrow> [c] # []))"

fun join_path :: "string list \<Rightarrow> string" where
  "join_path [] = []"
| "join_path [e] = e"
| "join_path (e # es) = e @ ''/'' @ join_path es"

definition Clean_step :: "bool \<Rightarrow> string list \<Rightarrow> string \<Rightarrow> string list" where
  "Clean_step rooted out e =
     (if e = [] \<or> e = ''.'' then out
      else if e = ''..'' then
        (if out \<noteq> [] \<and> last out \<noteq> ''..'' then butlast out
         else if \<not> rooted then out @ [''..'']
         else out)
      else out @ [e])"

definition Clean :: "string \<Rightarrow> string" where
  "Clean path =
     (if path = [] then ''.''
      else
        (let rooted = isPathSeparator (hd path);
             out = foldl (Clean_step rooted) [] (split_path path);
             cleaned = (if rooted then ''/'' else []) @ join_path out
         in if cleaned = [] then ''.'' else cleaned))"

definition Join :: "string \<Rightarrow> string \<Rightarrow> string" where
  "Join dir name =
     (if dir \<noteq> [] then Clean (dir @ ''/'' @ name)
      else if name \<noteq> [] then Clean name
      else [])"

text \<open>
  \<open>io.LimitReader(r, n)\<close> over a body that delivers \<open>body\<close> and then ends with \<open>err\<close>: the
  first \<open>n\<close> bytes and a clean end when the body has that many (its own end is then never
  reached), the whole body and its own end otherwise.
\<close>

definition LimitReader :: "string \<Rightarrow> string option \<Rightarrow> nat \<Rightarrow> string \<times> string option" where
  "LimitReader body err n = (if n \<le> length body then (take n body, None) else (body, err))"

text \<open>
  \<open>io.Copy(outFile, r)\<close>: the bytes that \<open>r\<close> delivers are written through the open file
  at its offset, which nothing resets: they follow what earlier calls wrote. The copy
  returns their number and the error that ended it. (The error stands for any error of the
  copy, of a read or of a write; the bytes are those written before it.)
\<close>

definition io_Copy ::
  "string \<Rightarrow> string \<times> string option \<Rightarrow> world \<Rightarrow> (nat \<times> string option) \<times> world" where
  "io_Copy outFile r w =
     ((length (fst r), snd r),
      w\<lparr>files := (files w)(outFile \<mapsto>
          (case files w outFile of None \<Rightarrow> fst r | Some old \<Rightarrow> old @ fst r))\<rparr>)"

definition maxRetries :: nat where
  "maxRetries = 3"

text \<open>
  One pass through the body of the retry loop, after the backoff sleep: a request, the
  status check and the copy into the temporary file. The result is the error that the pass
  stores in \<open>lastErr\<close> before its \<open>continue\<close>, or \<open>None\<close> when the pass reaches the
  \<open>break\<close>.
\<close>

definition attempt_body :: "env \<Rightarrow> Archive \<Rightarrow> string \<Rightarrow> world \<Rightarrow> error option \<times> world" where
  "attempt_body env archive tempFile w =
     (case NewRequest_error env (ArchiveURL archive) of
        Some e \<Rightarrow> (Some (CreateRequestFailed e), w)
      | None \<Rightarrow>
          (case client_Do (ArchiveURL archive) w of
             (TransportError e, w1) \<Rightarrow> (Some (GetFailed (ArchiveURL archive) e), w1)
           | (Response code body berr, w1) \<Rightarrow>
               if code \<noteq> 200
               then (Some (BadStatusDownloading (ArchiveURL archive) code), w1)
               else
                 (case io_Copy tempFile (LimitReader body berr (maxFileSize + 1)) w1 of
                    ((written, Some e), w2) \<Rightarrow> (Some (WriteFailed tempFile e), w2)
                  | ((written, None), w2) \<Rightarrow>
                      if written > maxFileSize then (Some ErrFileTooLarge, w2)
                      else (None, w2))))"

text \<open>
  The retry loop of \<open>downloadShow\<close>, from \<open>attempt\<close> on, with the value of \<open>lastErr\<close>. Its
  result is \<open>lastErr\<close> at the loop's end.
\<close>

function retry_loop ::
  "env \<Rightarrow> Archive \<Rightarrow> string \<Rightarrow> nat \<Rightarrow> error option \<Rightarrow> world \<Rightarrow> error option \<times> world" where
  "retry_loop env archive tempFile attempt lastErr w =
     (if \<not> attempt \<le> maxRetries then (lastErr, w)
      else
        (let w0 = (if attempt > 1 then Sleep (Second * int (attempt * 2)) w else w) in
         case attempt_body env archive tempFile w0 of
           (Some e, w1) \<Rightarrow> retry_loop env archive tempFile (attempt + 1) (Some e) w1
         | (None, w1) \<Rightarrow> (None, w1)))"
  by pat_completeness auto
termination
  by (relation "measure (\<lambda>(env, archive, tempFile, attempt, lastErr, w). Suc maxRetries - attempt)")
    auto

declare retry_loop.simps [simp del]

text \<open>
  The deferred function of \<open>downloadShow\<close>: it closes the file and, when the variable
  \<open>err\<close> that it captures is not \<open>nil\<close>, removes the temporary file.
\<close>

definition deferred :: "error option \<Rightarrow> string \<Rightarrow> world \<Rightarrow> world" where
  "deferred err tempFile w =
     (case err of None \<Rightarrow> w | Some _ \<Rightarrow> w\<lparr>files := (files w)(tempFile := None)\<rparr>)"

definition Rename :: "string \<Rightarrow> string \<Rightarrow> world \<Rightarrow> world" where
  "Rename oldpath newpath w =
     w\<lparr>files := ((files w)(newpath := files w oldpath))(oldpath := None)\<rparr>"

text \<open>The name and the place of the destination file, as \<open>downloadShow\<close> derives them.\<close>

definition filename_of :: "Archive \<Rightarrow> string" where
  "filename_of archive =
     sanitizeFilename (PlaylistDate archive @ ''_'' @ ShowID archive @ ''.mp3'')"

definition outputPath_of :: "Archive \<Rightarrow> string \<Rightarrow> string" where
  "outputPath_of archive outputDir = Join outputDir (filename_of archive)"

text \<open>
  \<open>downloadShow\<close>. The variable \<open>err\<close> of the function's own scope is declared by
  \<open>outFile, err := os.Create(tempFile)\<close> and is \<open>nil\<close> once the function goes on; every
  later \<open>err\<close> is another variable (declared by \<open>:=\<close> in the loop's body or in an \<open>if\<close>),
  and the results are not named, so no \<open>return\<close> writes it. The deferred function reads
  that variable.
\<close>

definition downloadShow ::
  "env \<Rightarrow> Archive \<Rightarrow> string \<Rightarrow> int \<Rightarrow> world \<Rightarrow> error option \<times> world" where
  "downloadShow env archive outputDir delay w =
     (if ArchiveURL archive = [] then (Some (NoMP3URL (ShowID archive)), w)
      else
        (let outputPath = outputPath_of archive outputDir in
           if files w outputPath \<noteq> None then (None, w)
           else
             (case MkdirAll_error env outputDir of
                Some e \<Rightarrow> (Some (MkdirFailed e), w)
              | None \<Rightarrow>
                  (let tempFile = outputPath @ ''.tmp'' in
                   case Create_error env tempFile of
                     Some e \<Rightarrow> (Some (CreateTempFailed tempFile e), w)
                   | None \<Rightarrow>
                       (let err = None;
                            w1 = w\<lparr>files := (files w)(tempFile \<mapsto> [])\<rparr>
                        in
                          case retry_loop env archive tempFile 1 None w1 of
                            (Some lastErr, w2) \<Rightarrow> (Some lastErr, deferred err tempFile w2)
                          | (None, w2) \<Rightarrow>
                              (case Sync_error env tempFile of
                                 Some e \<Rightarrow> (Some (SyncFailed e), deferred err tempFile w2)
                               | None \<Rightarrow>
                                   (case Close_error env tempFile of
                                      Some e \<Rightarrow>
                                        (Some (CloseFailed e), deferred err tempFile w2)
                                    | None \<Rightarrow>
                                        (case Rename_error env tempFile outputPath of
                                           Some e \<Rightarrow>
                                             (Some (RenameFailed e),
                                              deferred err tempFile w2)
                                         | None \<Rightarrow>
                                             (None,
                                              deferred err tempFile
                                                (Sleep delay
                                                   (Rename tempFile outputPath w2)))))))))))"

section \<open>main\<close>

fun download_loop :: "env \<Rightarrow> Archive list \<Rightarrow> string \<Rightarrow> int \<Rightarrow> world \<Rightarrow> world" where
  "download_loop env [] outDir delay w = w"
| "download_loop env (archive # rest) outDir delay w =
     (case downloadShow env archive outDir delay w of
        (Some e, w1) \<Rightarrow>
          download_loop env rest outDir delay (logError ''Download failed'' (Some e) w1)
      | (None, w1) \<Rightarrow> download_loop env rest outDir delay w1)"

text \<open>
  What the calls of \<open>downloadShow\<close> in that loop return, in the order of the calls (the
  loop itself keeps none of it).
\<close>

fun transfer_results :: "env \<Rightarrow> Archive list \<Rightarrow> string \<Rightarrow> int \<Rightarrow> world \<Rightarrow> error option list" where
  "transfer_results env [] outDir delay w = []"
| "transfer_results env (archive # rest) outDir delay w =
     (case downloadShow env archive outDir delay w of
        (Some e, w1) \<Rightarrow>
          Some e # transfer_results env rest outDir delay (logError ''Download failed'' (Some e) w1)
      | (None, w1) \<Rightarrow> None # transfer_results env rest outDir delay w1)"

text \<open>
  \<open>main\<close> after the flags are parsed; the result is the exit status of the process (0 when
  \<open>main\<close> returns, 1 from \<open>os.Exit(1)\<close>) and the world it leaves.
\<close>

definition main :: "env \<Rightarrow> string \<Rightarrow> string \<Rightarrow> int \<Rightarrow> world \<Rightarrow> nat \<times> world" where
  "main env showID outDir delay w =
     (case getShowArchiveID env showID w of
        (Inl e, w1) \<Rightarrow> (1, logError ''Failed to get archive ID'' (Some e) w1)
      | (Inr archiveID, w1) \<Rightarrow>
          (case fetchArchives env archiveID w1 of
             (Inl e, w2) \<Rightarrow> (1, logError ''Failed to fetch archives'' (Some e) w2)
           | (Inr archives, w2) \<Rightarrow>
               if length archives = 0 then (1, logError ''No archives found'' None w2)
               else (0, download_loop env archives outDir delay w2)))"

text \<open>
  Pacing, as a relation between the world before a call and the world after it: the call
  slept, and the last sleep was the delay.
\<close>

definition paced :: "int \<Rightarrow> world \<Rightarrow> world \<Rightarrow> bool" where
  "paced delay w w' = (strict_prefix (sleeps w) (sleeps w') \<and> last (sleeps w') = delay)"

section \<open>Example inputs\<close>

definition quiet_env :: env where
  "quiet_env =
     \<lparr>NewRequest_error = (\<lambda>_. None),
      html_Parse = (\<lambda>_ _. Inl ''no document''),
      json_Decode = (\<lambda>_ _. Inl ''no catalog''),
      MkdirAll_error = (\<lambda>_. None),
      Create_error = (\<lambda>_. None),
      Sync_error = (\<lambda>_. None),
      Close_error = (\<lambda>_. None),
      Rename_error = (\<lambda>_ _. None)\<rparr>"

definition idle_world :: world where
  "idle_world =
     \<lparr>files = Map.empty, responses = [], requests = [], sleeps = [], errors_logged = []\<rparr>"

definition ded_archive :: Archive where
  "ded_archive =
     \<lparr>ShowID = ''ded'', ArchiveURL = ''https://x/y.mp3'', PlaylistID = None,
      PlaylistDate = ''2024-03-15''\<rparr>"

definition two_archives_doc :: Node where
  "two_archives_doc =
     Node DocumentNode [] []
       [Node ElementNode ''html'' []
          [Node ElementNode ''head'' [] [],
           Node ElementNode ''body'' []
             [Node ElementNode ''wmse-archive'' [Attribute [] ''show-id'' ''1''] [],
              Node ElementNode ''wmse-archive'' [Attribute [] ''show-id'' ''2''] []]]]"

definition no_url_archive :: Archive where
  "no_url_archive = ded_archive\<lparr>ArchiveURL := []\<rparr>"

definition three_failures :: world where
  "three_failures =
     idle_world\<lparr>responses :=
       [Response 500 [] None, Response 500 [] None, Response 500 [] None]\<rparr>"

definition fail_fail_succeed :: world where
  "fail_fail_succeed =
     idle_world\<lparr>responses :=
       [Response 200 ''AB'' (Some ''unexpected EOF''), Response 503 [] None,
        Response 200 ''CD'' None]\<rparr>"

definition already_there :: world where
  "already_there = idle_world\<lparr>files := [''archives/2024-03-15_ded.mp3'' \<mapsto> ''MP3'']\<rparr>"

definition many_archives :: "Archive list" where
  "many_archives = replicate 1001 ded_archive"

definition big_body :: string where
  "big_body = replicate (10 * 1024 * 1024 + 1) CHR '' ''"

definition flood_env :: env where
  "flood_env = quiet_env\<lparr>json_Decode := (\<lambda>_ _. Inr many_archives)\<rparr>"

definition flood_world :: world where
  "flood_world = idle_world\<lparr>responses := [Response 200 big_body None]\<rparr>"

definition page_env :: env where
  "page_env =
     quiet_env\<lparr>html_Parse := (\<lambda>_ _. Inr two_archives_doc),
       json_Decode := (\<lambda>_ _. Inr [no_url_archive, ded_archive])\<rparr>"

definition page_world :: world where
  "page_world = idle_world\<lparr>responses := [Response 200 ''<html>'' None]\<rparr>"

definition failing_run :: world where
  "failing_run =
     idle_world\<lparr>responses :=
       [Response 200 ''<html>'' None, Response 200 ''[{}, {}]'' None,
        Response 500 [] None, Response 500 [] None, Response 500 [] None]\<rparr>"

definition after_page :: world where
  "after_page =
     \<lparr>files = Map.empty,
      responses =
        [Response 200 ''[{}, {}]'' None,
         Response 500 [] None, Response 500 [] None, Response 500 [] None],
      requests = [''https://wmse.org/program/ded/''], sleeps = [], errors_logged = []\<rparr>"

definition after_catalog :: world where
  "after_catalog =
     \<lparr>files = Map.empty,
      responses = [Response 500 [] None, Response 500 [] None, Response 500 [] None],
      requests = [''https://wmse.org/program/ded/'', ''https://wmse.fly.dev/api/shows/2''],
      sleeps = [], errors_logged = []\<rparr>"

section \<open>Properties of sanitizeFilename\<close>

lemma keeps_ascii: "keeps c \<Longrightarrow> (of_char c :: nat) < 128"
  by (auto simp: keeps_def is_lower_def is_upper_def is_digit_def byte_in_def)

lemma keeps_not_separator: "keeps c \<Longrightarrow> \<not> isPathSeparator c"
  unfolding isPathSeparator_def
  by (auto simp: keeps_def is_lower_def is_upper_def is_digit_def byte_in_def)

lemma safe_char_not_separator: "safe_char c \<Longrightarrow> \<not> isPathSeparator c"
  using keeps_not_separator [of c] by (auto simp: safe_char_def isPathSeparator_def)

lemma rune_width_ascii: "(of_char c :: nat) < 128 \<Longrightarrow> rune_width (c # cs) = 1"
  by (simp add: rune_width_def)

lemma replaceUnsafe_safe: "list_all safe_char (replaceUnsafe s)"
  by (induction s rule: replaceUnsafe.induct) (simp_all add: safe_char_def)

lemma replaceUnsafe_ascii: "list_all (\<lambda>c. (of_char c :: nat) < 128) (replaceUnsafe s)"
  by (induction s rule: replaceUnsafe.induct) (simp_all add: keeps_ascii)

lemma replaceUnsafe_fixed: "list_all safe_char s \<Longrightarrow> replaceUnsafe s = s"
proof (induction s)
  case Nil
  show ?case by simp
next
  case (Cons c cs)
  then have tl: "replaceUnsafe cs = cs" and c: "safe_char c"
    by simp_all
  show ?case
  proof (cases "keeps c")
    case True
    with tl show ?thesis by simp
  next
    case False
    with c have u: "c = CHR ''_''"
      by (simp add: safe_char_def)
    then have "rune_width (c # cs) = 1"
      by (simp add: rune_width_ascii)
    with False u tl show ?thesis by simp
  qed
qed

lemma replaceUnsafe_not_empty: "s \<noteq> [] \<Longrightarrow> replaceUnsafe s \<noteq> []"
  by (cases s) simp_all

lemma Base_not_empty: "Base path \<noteq> []"
  by (simp add: Base_def Let_def)

lemma Base_fixed:
  assumes "s \<noteq> []" and "list_all (\<lambda>c. \<not> isPathSeparator c) s"
  shows "Base s = s"
proof -
  from assms(2) have all: "\<forall>c \<in> set (rev s). \<not> isPathSeparator c"
    by (simp add: list_all_iff)
  from assms(1) all have "\<not> isPathSeparator (hd (rev s))"
    by (metis hd_in_set rev_is_Nil_conv)
  with assms(1) have strip: "dropWhile isPathSeparator (rev s) = rev s"
    by (cases "rev s") simp_all
  from all have keep: "takeWhile (\<lambda>c. \<not> isPathSeparator c) (rev s) = rev s"
    by (simp add: takeWhile_eq_all_conv)
  from assms(1) show ?thesis
    by (simp add: Base_def Let_def strip keep)
qed

lemma HasSuffix_append: "HasSuffix (s @ t) t"
  by (simp add: HasSuffix_def)

lemma ToLower_mp3: "ToLower (s @ ''.mp3'') = ToLower s @ ''.mp3''"
  by (simp add: ToLower_def lower_byte_def)

lemma sanitizeFilename_suffix: "HasSuffix (ToLower (sanitizeFilename x)) ''.mp3''"
  by (simp add: sanitizeFilename_def Let_def ToLower_mp3 HasSuffix_append)

lemma safe_char_mp3: "list_all safe_char ''.mp3''"
  by (simp add: safe_char_def keeps_def is_lower_def is_upper_def is_digit_def byte_in_def)

lemma sanitizeFilename_safe: "list_all safe_char (sanitizeFilename x)"
  using safe_char_mp3 by (simp add: sanitizeFilename_def Let_def replaceUnsafe_safe)

lemma safe_char_alphabet: "safe_char c \<longleftrightarrow> c \<in> set filename_alphabet"
  by (cases c)
    (simp add: safe_char_def filename_alphabet_def keeps_def is_lower_def is_upper_def
      is_digit_def byte_in_def)

lemma sanitizeFilename_alphabet:
  "list_all (\<lambda>c. c \<in> set filename_alphabet) (sanitizeFilename x)"
  using sanitizeFilename_safe [of x] by (simp add: list_all_iff safe_char_alphabet)

lemma sanitizeFilename_not_empty: "sanitizeFilename x \<noteq> []"
  by (simp add: sanitizeFilename_def Let_def replaceUnsafe_not_empty Base_not_empty)

lemma sanitizeFilename_no_separator:
  "list_all (\<lambda>c. \<not> isPathSeparator c) (sanitizeFilename x)"
  using sanitizeFilename_safe [of x] safe_char_not_separator
  by (simp add: list_all_iff)

text \<open>
  C9. Sanitizing a name twice gives what sanitizing it once gives: a sanitized name is not
  empty and has no separator, so \<open>Base\<close> keeps it whole; it has only characters of the
  class and underscores, so the replacement keeps it; and it ends in \<open>.mp3\<close>, so nothing is
  appended.
\<close>

theorem sanitizeFilename_idempotent:
  "sanitizeFilename (sanitizeFilename x) = sanitizeFilename x"
proof -
  let ?y = "sanitizeFilename x"
  have base: "Base ?y = ?y"
    by (rule Base_fixed [OF sanitizeFilename_not_empty sanitizeFilename_no_separator])
  have repl: "replaceUnsafe ?y = ?y"
    by (rule replaceUnsafe_fixed [OF sanitizeFilename_safe])
  have "sanitizeFilename ?y =
      (if \<not> HasSuffix (ToLower ?y) ''.mp3'' then ?y @ ''.mp3'' else ?y)"
    unfolding sanitizeFilename_def [of ?y] Let_def base repl ..
  then show ?thesis
    by (simp add: sanitizeFilename_suffix)
qed

text \<open>
  C10. Whatever the input, the sanitized name is not empty, every character of it is a
  letter, a digit, a dot, an underscore or a hyphen (so none is the path separator, and the
  name has no directory part: \<open>Base\<close> gives it back whole), and its lower-case form ends in
  \<open>.mp3\<close>.
\<close>

theorem sanitizeFilename_shape:
  "sanitizeFilename x \<noteq> [] \<and>
   list_all (\<lambda>c. c \<in> set filename_alphabet) (sanitizeFilename x) \<and>
   list_all (\<lambda>c. c \<noteq> CHR ''/'') (sanitizeFilename x) \<and>
   Base (sanitizeFilename x) = sanitizeFilename x \<and>
   HasSuffix (ToLower (sanitizeFilename x)) ''.mp3''"
proof -
  have sep: "list_all (\<lambda>c. c \<noteq> CHR ''/'') (sanitizeFilename x)"
    using sanitizeFilename_no_separator [of x] by (simp add: isPathSeparator_def)
  have base: "Base (sanitizeFilename x) = sanitizeFilename x"
    by (rule Base_fixed [OF sanitizeFilename_not_empty sanitizeFilename_no_separator])
  from sep base show ?thesis
    by (simp add: sanitizeFilename_not_empty sanitizeFilename_alphabet
        sanitizeFilename_suffix)
qed

section \<open>validateShowID against the specification\<close>

lemma class_alphabet: "validShowIDRegex_class c \<longleftrightarrow> c \<in> set spec_key_alphabet"
  by (cases c)
    (simp add: validShowIDRegex_class_def spec_key_alphabet_def is_lower_def is_upper_def
      is_digit_def byte_in_def)

lemma validateShowID_accepts: "validateShowID s = None \<longleftrightarrow> spec_show_key s"
  by (cases s)
    (auto simp: validateShowID_def spec_show_key_def MatchString_validShowIDRegex_def
      maxShowIDLength_def list_all_iff class_alphabet)

lemma validateShowID_rejects:
  "validateShowID s \<noteq> None \<Longrightarrow> \<exists>msg. validateShowID s = Some (ErrInvalidShowID msg)"
  by (simp add: validateShowID_def split: if_splits)

lemma getShowArchiveID_rejected:
  "validateShowID s = Some e \<Longrightarrow> getShowArchiveID env s w = (Inl e, w)"
  by (simp add: getShowArchiveID_def)

text \<open>
  C7. \<open>validateShowID\<close> accepts exactly the strings of the specification's shape (1 to 50
  characters, each a letter, a digit, an underscore or a hyphen). Every other string gets
  the wrapped \<open>ErrInvalidShowID\<close>, and \<open>getShowArchiveID\<close> returns that error with the
  world as it was: no request has been sent.
\<close>

theorem validateShowID_spec:
  "(validateShowID s = None \<longleftrightarrow> spec_show_key s) \<and>
   (\<not> spec_show_key s \<longrightarrow>
      (\<exists>msg. validateShowID s = Some (ErrInvalidShowID msg) \<and>
         getShowArchiveID env s w = (Inl (ErrInvalidShowID msg), w)))"
proof (intro conjI impI)
  show "validateShowID s = None \<longleftrightarrow> spec_show_key s"
    by (rule validateShowID_accepts)
next
  assume "\<not> spec_show_key s"
  then have "validateShowID s \<noteq> None"
    by (simp add: validateShowID_accepts)
  then obtain msg where msg: "validateShowID s = Some (ErrInvalidShowID msg)"
    using validateShowID_rejects by blast
  then have "getShowArchiveID env s w = (Inl (ErrInvalidShowID msg), w)"
    by (rule getShowArchiveID_rejected)
  with msg show "\<exists>msg. validateShowID s = Some (ErrInvalidShowID msg) \<and>
      getShowArchiveID env s w = (Inl (ErrInvalidShowID msg), w)"
    by blast
qed

theorem validateShowID_spec_witness:
  "spec_show_key ''ded'' \<and> validateShowID ''ded'' = None \<and>
   \<not> spec_show_key ''../etc'' \<and>
   validateShowID ''../etc'' = Some (ErrInvalidShowID ''contains invalid characters'') \<and>
   getShowArchiveID quiet_env ''../etc'' idle_world =
     (Inl (ErrInvalidShowID ''contains invalid characters''), idle_world)"
proof -
  have ok: "spec_show_key ''ded''"
    by (simp add: spec_show_key_def spec_key_alphabet_def)
  have bad: "\<not> spec_show_key ''../etc''"
    by (simp add: spec_show_key_def spec_key_alphabet_def)
  have v: "validateShowID ''../etc'' = Some (ErrInvalidShowID ''contains invalid characters'')"
    by (simp add: validateShowID_def maxShowIDLength_def MatchString_validShowIDRegex_def
        validShowIDRegex_class_def is_lower_def is_upper_def is_digit_def byte_in_def)
  from validateShowID_spec [of "''ded''" quiet_env idle_world] ok
  have a: "validateShowID ''ded'' = None"
    by simp
  from validateShowID_spec [of "''../etc''" quiet_env idle_world] bad v
  have g: "getShowArchiveID quiet_env ''../etc'' idle_world =
      (Inl (ErrInvalidShowID ''contains invalid characters''), idle_world)"
    by simp
  from ok bad v a g show ?thesis
    by simp
qed

section \<open>Evaluating the example inputs\<close>

lemmas char_class_defs =
  keeps_def is_lower_def is_upper_def is_digit_def byte_in_def isPathSeparator_def

lemma filename_of_ded: "filename_of ded_archive = ''2024-03-15_ded.mp3''"
  by (simp add: filename_of_def ded_archive_def sanitizeFilename_def Base_def char_class_defs
      HasSuffix_def ToLower_def lower_byte_def rune_width_def)

lemma outputPath_of_ded:
  "outputPath_of ded_archive ''archives'' = ''archives/2024-03-15_ded.mp3''"
  by (simp add: outputPath_of_def filename_of_ded Join_def Clean_def Clean_step_def
      isPathSeparator_def)

lemma outputPath_of_no_url:
  "outputPath_of no_url_archive ''archives'' = ''archives/2024-03-15_ded.mp3''"
  using outputPath_of_ded
  by (simp add: outputPath_of_def filename_of_def no_url_archive_def)

lemma ArchiveURL_ded: "ArchiveURL ded_archive = ''https://x/y.mp3''"
  by (simp add: ded_archive_def)

lemma validateShowID_ded: "validateShowID ''ded'' = None"
  by (simp add: validateShowID_def maxShowIDLength_def MatchString_validShowIDRegex_def
      validShowIDRegex_class_def is_lower_def is_upper_def is_digit_def byte_in_def)

lemmas run_defs =
  downloadShow_def Let_def outputPath_of_ded ArchiveURL_ded quiet_env_def idle_world_def
  retry_loop.simps attempt_body_def maxRetries_def maxFileSize_def client_Do_def Sleep_def
  deferred_def io_Copy_def LimitReader_def Rename_def

lemma three_failures_run:
  "downloadShow quiet_env ded_archive ''archives'' (5 * Second) three_failures =
     (Some (BadStatusDownloading ''https://x/y.mp3'' 500),
      \<lparr>files = [''archives/2024-03-15_ded.mp3.tmp'' \<mapsto> []],
       responses = [],
       requests = [''https://x/y.mp3'', ''https://x/y.mp3'', ''https://x/y.mp3''],
       sleeps = [4 * Second, 6 * Second],
       errors_logged = []\<rparr>)"
  by (simp add: run_defs three_failures_def)

lemma fail_fail_succeed_run:
  "downloadShow quiet_env ded_archive ''archives'' (5 * Second) fail_fail_succeed =
     (None,
      \<lparr>files = [''archives/2024-03-15_ded.mp3'' \<mapsto> ''ABCD''],
       responses = [],
       requests = [''https://x/y.mp3'', ''https://x/y.mp3'', ''https://x/y.mp3''],
       sleeps = [4 * Second, 6 * Second, 5 * Second],
       errors_logged = []\<rparr>)"
  by (simp add: run_defs fail_fail_succeed_def fun_upd_twist)

section \<open>The search for the archive element\<close>

text \<open>
  C3, where the code departs from it. In a document with two \<open>wmse-archive\<close> elements,
  siblings with \<open>show-id\<close> 1 and 2, the first match in document order is 1; the closure
  stores 1, returns from that call only, is called on the sibling and stores 2, and
  \<open>getShowArchiveID\<close> returns 2.
\<close>

theorem first_match_not_returned:
  "spec_first_match two_archives_doc = Some ''1'' \<and>
   getShowArchiveID_f two_archives_doc [] = ''2'' \<and>
   fst (getShowArchiveID page_env ''ded'' page_world) = Inr ''2''"
proof -
  have f: "getShowArchiveID_f two_archives_doc [] = ''2''"
    by (simp add: two_archives_doc_def)
  have s: "spec_first_match two_archives_doc = Some ''1''"
    by (simp add: two_archives_doc_def)
  from f s show ?thesis
    by (simp add: getShowArchiveID_def validateShowID_ded page_env_def quiet_env_def
        page_world_def idle_world_def client_Do_def)
qed

section \<open>The temporary file and the retries\<close>

text \<open>
  C1, where the code departs from it. Three attempts, each answered with status 500:
  \<open>downloadShow\<close> returns the error of the last attempt and no file is at the destination,
  as claimed, but the temporary file is still there. The deferred function reads the
  \<open>err\<close> of \<open>os.Create\<close>, which is \<open>nil\<close>, and never removes it.
\<close>

theorem all_retries_failed_temp_file_stays:
  "fst (downloadShow quiet_env ded_archive ''archives'' (5 * Second) three_failures) =
     Some (BadStatusDownloading ''https://x/y.mp3'' 500) \<and>
   files (snd (downloadShow quiet_env ded_archive ''archives'' (5 * Second) three_failures))
     ''archives/2024-03-15_ded.mp3'' = None \<and>
   files (snd (downloadShow quiet_env ded_archive ''archives'' (5 * Second) three_failures))
     ''archives/2024-03-15_ded.mp3.tmp'' = Some []"
  by (simp add: three_failures_run)

text \<open>
  C2, where the code departs from it. The first attempt delivers the bytes \<open>AB\<close> and then
  fails, the second is answered with status 503, the third delivers \<open>CD\<close>. The sleeps are
  4 and 6 seconds (and then the delay), as claimed, but the promoted file holds \<open>ABCD\<close>:
  every attempt writes through the same open file, which is never truncated or rewound.
\<close>

theorem third_attempt_keeps_partial_bytes:
  "fst (downloadShow quiet_env ded_archive ''archives'' (5 * Second) fail_fail_succeed) = None \<and>
   files (snd (downloadShow quiet_env ded_archive ''archives'' (5 * Second) fail_fail_succeed))
     ''archives/2024-03-15_ded.mp3'' = Some ''ABCD'' \<and>
   sleeps (snd (downloadShow quiet_env ded_archive ''archives'' (5 * Second) fail_fail_succeed)) =
     [4 * Second, 6 * Second, 5 * Second]"
  by (simp add: fail_fail_succeed_run)

section \<open>What a transfer leaves alone\<close>

lemma attempt_body_frame:
  "sleeps (snd (attempt_body env archive tempFile w)) = sleeps w \<and>
   errors_logged (snd (attempt_body env archive tempFile w)) = errors_logged w"
  by (simp add: attempt_body_def client_Do_def io_Copy_def
      split: option.splits list.splits http_result.splits prod.splits)

lemma attempt_body_sleeps:
  "attempt_body env archive tempFile w = (r, w') \<Longrightarrow> sleeps w' = sleeps w"
  using attempt_body_frame [of env archive tempFile w] by simp

lemma attempt_body_errors_logged:
  "attempt_body env archive tempFile w = (r, w') \<Longrightarrow> errors_logged w' = errors_logged w"
  using attempt_body_frame [of env archive tempFile w] by simp

lemma retry_loop_sleeps:
  "prefix (sleeps w) (sleeps (snd (retry_loop env archive tempFile attempt lastErr w)))"
proof (induction env archive tempFile attempt lastErr w rule: retry_loop.induct)
  case (1 env archive tempFile attempt lastErr w)
  let ?w0 = "if attempt > 1 then Sleep (Second * int (attempt * 2)) w else w"
  have w0: "prefix (sleeps w) (sleeps ?w0)"
    by (simp add: Sleep_def)
  show ?case
  proof (cases "attempt \<le> maxRetries")
    case False
    then show ?thesis
      by (simp add: retry_loop.simps)
  next
    case True
    obtain r w1 where body: "attempt_body env archive tempFile ?w0 = (r, w1)"
      by (cases "attempt_body env archive tempFile ?w0")
    then have same: "sleeps w1 = sleeps ?w0"
      by (rule attempt_body_sleeps)
    show ?thesis
    proof (cases r)
      case None
      with True body same w0 show ?thesis
        by (simp add: retry_loop.simps [of env archive tempFile attempt] Let_def)
    next
      case (Some e)
      with True body have
        "prefix (sleeps w1)
           (sleeps (snd (retry_loop env archive tempFile (attempt + 1) (Some e) w1)))"
        using "1.IH" [OF _ refl body [symmetric]] by simp
      with same w0 have
        "prefix (sleeps w)
           (sleeps (snd (retry_loop env archive tempFile (attempt + 1) (Some e) w1)))"
        by (metis prefix_order.order_trans)
      with True body Some show ?thesis
        by (simp add: retry_loop.simps [of env archive tempFile attempt] Let_def)
    qed
  qed
qed

lemma retry_loop_errors_logged:
  "errors_logged (snd (retry_loop env archive tempFile attempt lastErr w)) = errors_logged w"
proof (induction env archive tempFile attempt lastErr w rule: retry_loop.induct)
  case (1 env archive tempFile attempt lastErr w)
  let ?w0 = "if attempt > 1 then Sleep (Second * int (attempt * 2)) w else w"
  have w0: "errors_logged ?w0 = errors_logged w"
    by (simp add: Sleep_def)
  show ?case
  proof (cases "attempt \<le> maxRetries")
    case False
    then show ?thesis
      by (simp add: retry_loop.simps)
  next
    case True
    obtain r w1 where body: "attempt_body env archive tempFile ?w0 = (r, w1)"
      by (cases "attempt_body env archive tempFile ?w0")
    then have same: "errors_logged w1 = errors_logged ?w0"
      by (rule attempt_body_errors_logged)
    show ?thesis
    proof (cases r)
      case None
      with True body same w0 show ?thesis
        by (simp add: retry_loop.simps [of env archive tempFile attempt] Let_def)
    next
      case (Some e)
      with True body have
        "errors_logged (snd (retry_loop env archive tempFile (attempt + 1) (Some e) w1)) =
           errors_logged w1"
        using "1.IH" [OF _ refl body [symmetric]] by simp
      with True body Some same w0 show ?thesis
        by (simp add: retry_loop.simps [of env archive tempFile attempt] Let_def)
    qed
  qed
qed

lemma downloadShow_errors_logged:
  "errors_logged (snd (downloadShow env archive outputDir delay w)) = errors_logged w"
proof -
  have loop: "\<And>tempFile n l w1 r w2. retry_loop env archive tempFile n l w1 = (r, w2) \<Longrightarrow>
      errors_logged w2 = errors_logged w1"
    using retry_loop_errors_logged by (metis snd_conv)
  show ?thesis
    by (auto simp: downloadShow_def Let_def deferred_def Sleep_def Rename_def
        split: option.splits prod.splits dest!: loop)
qed

section \<open>Skipping and pacing\<close>

lemma downloadShow_sleeps_success:
  assumes run: "downloadShow env archive outputDir delay w = (None, w')"
    and fresh: "files w (outputPath_of archive outputDir) = None"
  shows "paced delay w w'"
proof -
  let ?out = "outputPath_of archive outputDir"
  let ?tmp = "?out @ ''.tmp''"
  let ?w1 = "w\<lparr>files := (files w)(?tmp \<mapsto> [])\<rparr>"
  obtain r w2 where loop: "retry_loop env archive ?tmp 1 None ?w1 = (r, w2)"
    by (cases "retry_loop env archive ?tmp 1 None ?w1")
  from retry_loop_sleeps [of ?w1 env archive ?tmp 1 None] loop
  have pre: "prefix (sleeps w) (sleeps w2)"
    by simp
  from run fresh loop have "w' = Sleep delay (Rename ?tmp ?out w2)"
    unfolding downloadShow_def Let_def deferred_def
    by (simp split: if_splits option.splits)
  then have after: "sleeps w' = sleeps w2 @ [delay]"
    by (simp add: Sleep_def Rename_def)
  from pre obtain zs where "sleeps w2 = sleeps w @ zs"
    by (auto simp: prefix_def)
  with after have eq: "sleeps w' = sleeps w @ (zs @ [delay])"
    by simp
  then have "prefix (sleeps w) (sleeps w')" and "sleeps w \<noteq> sleeps w'"
    by simp_all
  then have "strict_prefix (sleeps w) (sleeps w')"
    by (simp add: strict_prefix_def)
  moreover from after have "last (sleeps w') = delay"
    by simp
  ultimately show ?thesis
    by (simp add: paced_def)
qed

lemma downloadShow_sleeps_untouched:
  "ArchiveURL archive = [] \<or> files w (outputPath_of archive outputDir) \<noteq> None \<Longrightarrow>
   downloadShow env archive outputDir delay w =
     (if ArchiveURL archive = [] then Some (NoMP3URL (ShowID archive)) else None, w)"
  by (auto simp: downloadShow_def Let_def)

text \<open>
  C4, as amended. For an entry that has a URL and whose destination file exists,
  \<open>downloadShow\<close> returns \<open>nil\<close> and leaves the world as it was: no request is sent, no
  file changes, nothing sleeps.
\<close>

theorem downloadShow_skips_existing:
  "ArchiveURL archive \<noteq> [] \<Longrightarrow> files w (outputPath_of archive outputDir) \<noteq> None \<Longrightarrow>
   downloadShow env archive outputDir delay w = (None, w)"
  by (simp add: downloadShow_def Let_def)

text \<open>An instance: the destination of the example entry exists.\<close>

theorem downloadShow_skips_existing_witness:
  "ArchiveURL ded_archive \<noteq> [] \<and>
   files already_there (outputPath_of ded_archive ''archives'') \<noteq> None \<and>
   downloadShow quiet_env ded_archive ''archives'' (5 * Second) already_there =
     (None, already_there)"
proof -
  have url: "ArchiveURL ded_archive \<noteq> []"
    by (simp add: ArchiveURL_ded)
  have there: "files already_there (outputPath_of ded_archive ''archives'') \<noteq> None"
    by (simp add: outputPath_of_ded already_there_def)
  from downloadShow_skips_existing [OF url there] url there show ?thesis
    by simp
qed

text \<open>
  C4 as stated fails for an entry without a URL: its destination file exists, and
  \<open>downloadShow\<close> returns the error of the missing URL, since that check comes first.
\<close>

theorem existing_file_without_url_fails:
  "files already_there (outputPath_of no_url_archive ''archives'') \<noteq> None \<and>
   downloadShow quiet_env no_url_archive ''archives'' (5 * Second) already_there =
     (Some (NoMP3URL ''ded''), already_there)"
proof -
  have "ArchiveURL no_url_archive = []" and "ShowID no_url_archive = ''ded''"
    by (simp_all add: no_url_archive_def ded_archive_def)
  then show ?thesis
    by (simp add: outputPath_of_no_url already_there_def downloadShow_def)
qed

text \<open>
  C6, as amended. When \<open>downloadShow\<close> downloads the file and promotes it (it returns
  \<open>nil\<close> for an entry whose destination did not exist), its last sleep is the delay. When
  the entry has no URL or its destination exists, it returns without any sleep.
\<close>

theorem downloadShow_pacing:
  "(downloadShow env archive outputDir delay w = (None, w') \<and>
      files w (outputPath_of archive outputDir) = None \<longrightarrow> paced delay w w') \<and>
   (ArchiveURL archive = [] \<or> files w (outputPath_of archive outputDir) \<noteq> None \<longrightarrow>
      sleeps (snd (downloadShow env archive outputDir delay w)) = sleeps w)"
  using downloadShow_sleeps_success [of env archive outputDir delay w w']
    downloadShow_sleeps_untouched [of archive w outputDir env delay]
  by auto

text \<open>
  Instances: the run that succeeds at the third attempt ends with the delay; the run that
  finds the destination does not sleep.
\<close>

theorem downloadShow_pacing_witness:
  "downloadShow quiet_env ded_archive ''archives'' (5 * Second) fail_fail_succeed =
     (None, snd (downloadShow quiet_env ded_archive ''archives'' (5 * Second) fail_fail_succeed)) \<and>
   files fail_fail_succeed (outputPath_of ded_archive ''archives'') = None \<and>
   paced (5 * Second) fail_fail_succeed
     (snd (downloadShow quiet_env ded_archive ''archives'' (5 * Second) fail_fail_succeed)) \<and>
   files already_there (outputPath_of ded_archive ''archives'') \<noteq> None \<and>
   sleeps (snd (downloadShow quiet_env ded_archive ''archives'' (5 * Second) already_there)) =
     sleeps already_there"
proof -
  let ?w' = "snd (downloadShow quiet_env ded_archive ''archives'' (5 * Second) fail_fail_succeed)"
  have run: "downloadShow quiet_env ded_archive ''archives'' (5 * Second) fail_fail_succeed =
      (None, ?w')"
    by (simp add: fail_fail_succeed_run)
  have fresh: "files fail_fail_succeed (outputPath_of ded_archive ''archives'') = None"
    by (simp add: outputPath_of_ded fail_fail_succeed_def idle_world_def)
  have there: "files already_there (outputPath_of ded_archive ''archives'') \<noteq> None"
    by (simp add: outputPath_of_ded already_there_def)
  from downloadShow_pacing [of quiet_env ded_archive "''archives''" "5 * Second"
      fail_fail_succeed ?w'] run fresh
  have p: "paced (5 * Second) fail_fail_succeed ?w'"
    by blast
  from downloadShow_pacing [of quiet_env ded_archive "''archives''" "5 * Second"
      already_there] there
  have s: "sleeps (snd (downloadShow quiet_env ded_archive ''archives'' (5 * Second)
      already_there)) = sleeps already_there"
    by blast
  from run fresh p there s show ?thesis
    by blast
qed

text \<open>
  C6 as stated fails for an entry whose destination file exists: \<open>downloadShow\<close> returns
  \<open>nil\<close> and has not slept.
\<close>

theorem skipped_transfer_does_not_sleep:
  "fst (downloadShow quiet_env ded_archive ''archives'' (5 * Second) already_there) = None \<and>
   \<not> paced (5 * Second) already_there
       (snd (downloadShow quiet_env ded_archive ''archives'' (5 * Second) already_there))"
  by (simp add: downloadShow_def Let_def outputPath_of_ded ArchiveURL_ded already_there_def
      paced_def)

section \<open>The driver\<close>

lemma transfer_results_length:
  "length (transfer_results env archives outDir delay w) = length archives"
  by (induction archives arbitrary: w) (simp_all split: prod.splits option.splits)

lemma download_loop_logged:
  "errors_logged (download_loop env archives outDir delay w) =
     errors_logged w @
       map (\<lambda>r. (''Download failed'', r))
         (filter (\<lambda>r. r \<noteq> None) (transfer_results env archives outDir delay w))"
proof (induction archives arbitrary: w)
  case Nil
  show ?case by simp
next
  case (Cons archive rest)
  obtain r w1 where run: "downloadShow env archive outDir delay w = (r, w1)"
    by (cases "downloadShow env archive outDir delay w")
  with downloadShow_errors_logged [of env archive outDir delay w]
  have same: "errors_logged w1 = errors_logged w"
    by simp
  show ?case
  proof (cases r)
    case None
    with run same Cons.IH [of w1] show ?thesis
      by simp
  next
    case (Some e)
    with run same Cons.IH [of "logError ''Download failed'' (Some e) w1"] show ?thesis
      by (simp add: logError_def)
  qed
qed

lemma main_exit_zero:
  "fst (main env showID outDir delay w) = 0 \<longleftrightarrow>
     (\<exists>archiveID w1 archives w2.
        getShowArchiveID env showID w = (Inr archiveID, w1) \<and>
        fetchArchives env archiveID w1 = (Inr archives, w2) \<and> archives \<noteq> [])"
  by (auto simp: main_def split: prod.splits sum.splits)

lemma main_exit_range:
  "fst (main env showID outDir delay w) = 0 \<or> fst (main env showID outDir delay w) = 1"
  by (auto simp: main_def split: prod.splits sum.splits)

text \<open>
  C5. The exit status is 0 exactly when the resolver returned an archive ID, the catalog
  fetch returned a catalog, and the catalog is not empty; otherwise it is 1. What the
  transfers return has no part in it. The loop hands every entry of the catalog to
  \<open>downloadShow\<close>, whatever the earlier calls returned, and logs one record for each call
  that returned an error, in order.
\<close>

theorem main_exit_status:
  "(fst (main env showID outDir delay w) = 0 \<longleftrightarrow>
      (\<exists>archiveID w1 archives w2.
         getShowArchiveID env showID w = (Inr archiveID, w1) \<and>
         fetchArchives env archiveID w1 = (Inr archives, w2) \<and> archives \<noteq> [])) \<and>
   (fst (main env showID outDir delay w) = 0 \<or> fst (main env showID outDir delay w) = 1) \<and>
   length (transfer_results env catalog outDir delay w') = length catalog \<and>
   errors_logged (download_loop env catalog outDir delay w') =
     errors_logged w' @
       map (\<lambda>r. (''Download failed'', r))
         (filter (\<lambda>r. r \<noteq> None) (transfer_results env catalog outDir delay w'))"
  using main_exit_zero [of env showID outDir delay w]
    main_exit_range [of env showID outDir delay w]
    transfer_results_length [of env catalog outDir delay w']
    download_loop_logged [of env catalog outDir delay w']
  by blast

lemma page_resolved: "getShowArchiveID page_env ''ded'' failing_run = (Inr ''2'', after_page)"
  by (simp add: getShowArchiveID_def validateShowID_ded page_env_def quiet_env_def
      failing_run_def after_page_def idle_world_def client_Do_def baseURL_def
      two_archives_doc_def)

lemma catalog_fetched:
  "fetchArchives page_env ''2'' after_page = (Inr [no_url_archive, ded_archive], after_catalog)"
  by (simp add: fetchArchives_def page_env_def quiet_env_def after_page_def after_catalog_def
      client_Do_def apiURL_def)

text \<open>
  An instance: a catalog of two entries, the first without a URL, the second answered with
  status 500 three times. Both transfers fail, both failures are logged, the exit status
  is 0.
\<close>

theorem main_exit_status_witness:
  "fst (main page_env ''ded'' ''archives'' (5 * Second) failing_run) = 0 \<and>
   transfer_results page_env [no_url_archive, ded_archive] ''archives'' (5 * Second)
     after_catalog =
     [Some (NoMP3URL ''ded''), Some (BadStatusDownloading ''https://x/y.mp3'' 500)] \<and>
   errors_logged (snd (main page_env ''ded'' ''archives'' (5 * Second) failing_run)) =
     [(''Download failed'', Some (NoMP3URL ''ded'')),
      (''Download failed'', Some (BadStatusDownloading ''https://x/y.mp3'' 500))]"
proof -
  let ?catalog = "[no_url_archive, ded_archive]"
  have no_url: "ArchiveURL no_url_archive = []" "ShowID no_url_archive = ''ded''"
    by (simp_all add: no_url_archive_def ded_archive_def)
  have first: "downloadShow page_env no_url_archive ''archives'' (5 * Second) after_catalog =
      (Some (NoMP3URL ''ded''), after_catalog)"
    by (simp add: downloadShow_def no_url)
  have "fst (downloadShow page_env ded_archive ''archives'' (5 * Second)
      (logError ''Download failed'' (Some (NoMP3URL ''ded'')) after_catalog)) =
      Some (BadStatusDownloading ''https://x/y.mp3'' 500)"
    by (simp add: run_defs page_env_def after_catalog_def logError_def)
  then obtain w3 where "downloadShow page_env ded_archive ''archives'' (5 * Second)
      (logError ''Download failed'' (Some (NoMP3URL ''ded'')) after_catalog) =
      (Some (BadStatusDownloading ''https://x/y.mp3'' 500), w3)"
    by (metis prod.collapse)
  with first have results: "transfer_results page_env ?catalog ''archives'' (5 * Second)
      after_catalog =
      [Some (NoMP3URL ''ded''), Some (BadStatusDownloading ''https://x/y.mp3'' 500)]"
    by simp
  have empty: "errors_logged after_catalog = []"
    by (simp add: after_catalog_def idle_world_def)
  have run: "snd (main page_env ''ded'' ''archives'' (5 * Second) failing_run) =
      download_loop page_env ?catalog ''archives'' (5 * Second) after_catalog"
    by (simp add: main_def page_resolved catalog_fetched)
  note inst = main_exit_status [of page_env "''ded''" "''archives''" "5 * Second" failing_run
      ?catalog after_catalog]
  from inst page_resolved catalog_fetched have exit: "fst (main page_env ''ded'' ''archives''
      (5 * Second) failing_run) = 0"
    by blast
  from inst results empty run have logged: "errors_logged (snd (main page_env ''ded''
      ''archives'' (5 * Second) failing_run)) =
      [(''Download failed'', Some (NoMP3URL ''ded'')),
       (''Download failed'', Some (BadStatusDownloading ''https://x/y.mp3'' 500))]"
    by simp
  from exit results logged show ?thesis
    by simp
qed

section \<open>The catalog's ceilings\<close>

lemma big_body_length: "length big_body = 10485761"
  by (simp add: big_body_def)

lemma many_archives_length: "length many_archives = 1001"
  by (simp add: many_archives_def)

text \<open>
  C8, where the code departs from it. A response of more than \<open>maxResponseSize\<close> bytes
  that decodes to more than \<open>maxArchiveLinks\<close> entries: \<open>fetchArchives\<close> returns the
  decoded entries, all of them. Neither constant is used by the function, and neither
  \<open>ErrResponseTooLarge\<close> nor \<open>ErrTooManyLinks\<close> is ever returned.
\<close>

theorem fetchArchives_returns_oversized_catalog:
  "maxResponseSize < length big_body \<and> maxArchiveLinks < length many_archives \<and>
   fst (fetchArchives flood_env ''2'' flood_world) = Inr many_archives"
  by (simp add: big_body_length many_archives_length maxResponseSize_def maxArchiveLinks_def
      fetchArchives_def flood_env_def flood_world_def quiet_env_def idle_world_def
      client_Do_def)

end
